theory Spec2Isabelle
  imports Main
begin

section \<open>The page the script runs in\<close>

text \<open>
  \<^verbatim>\<open>static/js/single_comp.js\<close> is a browser script: it reads and writes the document,
  calls the charting library and the browser's download and fullscreen interfaces. Its
  effects are made explicit here. The document is a forest of nodes; an element has a tag
  name (in lower case, as the markup spells it), its attributes in source order, and its
  children. The elements are those of an HTML page as its parser builds them.

  What the browser makes of a string assigned to \<^verbatim>\<open>innerHTML\<close> depends on the element
  assigned to. The model spells the nodes out for the containers named further down. For
  any other element the new content is \<open>Unparsed t m\<close>: the nodes, whatever they are,
  that the browser's parser makes of the markup \<open>m\<close> inside an element with the tag \<open>t\<close>.
\<close>

datatype node =
    Element (tag: string) (attrs: "(string \<times> string) list") (children: "node list")
  | Text string
  | Unparsed string string

text \<open>
  The value of the \<^verbatim>\<open>id\<close> attribute. An empty \<^verbatim>\<open>id\<close> identifies nothing, and
  \<^verbatim>\<open>getElementById('')\<close> finds nothing.
\<close>

definition hasId :: "string \<Rightarrow> (string \<times> string) list \<Rightarrow> bool" where
  "hasId i as = (i \<noteq> [] \<and> map_of as ''id'' = Some i)"

text \<open>
  \<^verbatim>\<open>document.getElementById(i)\<close>: the first element in tree order (an element before
  its children, children left to right) whose id is \<open>i\<close>, or \<^verbatim>\<open>null\<close>. Nothing is
  found inside content left unread; that is right for markup that gives no element an id,
  and the markup of this script does not contain the letters \<^verbatim>\<open>id\<close> at all.
\<close>

fun findById :: "string \<Rightarrow> node \<Rightarrow> node option"
  and getElementById :: "string \<Rightarrow> node list \<Rightarrow> node option" where
  "findById i (Text s) = None"
| "findById i (Element t as cs) =
     (if hasId i as then Some (Element t as cs) else getElementById i cs)"
| "getElementById i [] = None"
| "getElementById i (n # ns) =
     (case findById i n of Some e \<Rightarrow> Some e | None \<Rightarrow> getElementById i ns)"
| "findById i (Unparsed t m) = None"

text \<open>
  Elements are values here, so giving an element new children is a traversal of the
  document: \<open>replaceChildren i new\<close> replaces the children of the element that
  \<open>getElementById i\<close> finds by the nodes \<open>new\<close>, and gives \<open>None\<close> when there is no such
  element.
\<close>

fun replaceIn :: "string \<Rightarrow> node list \<Rightarrow> node \<Rightarrow> node option"
  and replaceChildren :: "string \<Rightarrow> node list \<Rightarrow> node list \<Rightarrow> node list option" where
  "replaceIn i new (Text s) = None"
| "replaceIn i new (Element t as cs) =
     (if hasId i as then Some (Element t as new)
      else map_option (Element t as) (replaceChildren i new cs))"
| "replaceChildren i new [] = None"
| "replaceChildren i new (n # ns) =
     (case replaceIn i new n of
        Some n' \<Rightarrow> Some (n' # ns)
      | None \<Rightarrow> map_option ((#) n) (replaceChildren i new ns))"
| "replaceIn i new (Unparsed t m) = None"

subsection \<open>Reading markup\<close>

text \<open>
  Assigning to \<^verbatim>\<open>innerHTML\<close> hands the string to the browser's fragment parser. The
  model reads the kind of markup the script writes: character data, start tags with
  double-quoted or unquoted attribute values, end tags, and void elements, which take no
  end tag. A \<^verbatim>\<open><\<close> that no letter or \<^verbatim>\<open>/\<close> follows is character data. An end
  tag closes the open element when the names agree and is dropped otherwise; elements still
  open at the end of the input are closed there. Comments, character references, the
  folding of tag names to lower case and the repairs a browser makes to misnested markup
  are left out: the markup of the toolbar is in lower case, properly nested, and has none
  of them.
\<close>

datatype token =
    StartTag string "(string \<times> string) list"
  | EndTag string
  | Chars string

datatype lexstate =
    Data string
  | TagOpen
  | TagName string
  | EndTagName string
  | BeforeAttrName string "(string \<times> string) list"
  | AttrName string "(string \<times> string) list" string
  | BeforeAttrValue string "(string \<times> string) list" string
  | AttrValueQuoted string "(string \<times> string) list" string string
  | AttrValueUnquoted string "(string \<times> string) list" string string

definition isSpace :: "char \<Rightarrow> bool" where
  "isSpace c =
     (c = CHR '' '' \<or> c = CHR ''\<newline>'' \<or> c = CHR 0x09 \<or> c = CHR 0x0C \<or> c = CHR 0x0D)"

definition isLetter :: "char \<Rightarrow> bool" where
  "isLetter c = (c \<in> set ''abcdefghijklmnopqrstuvwxyzABCDEFGHIJKLMNOPQRSTUVWXYZ'')"

definition flush :: "string \<Rightarrow> token list" where
  "flush acc = (if acc = [] then [] else [Chars (rev acc)])"

text \<open>Names and values are accumulated in reverse and turned round when a token is emitted.\<close>

fun lex :: "lexstate \<Rightarrow> string \<Rightarrow> token list" where
  "lex (Data acc) [] = flush acc"
| "lex (Data acc) (c # cs) =
     (if c = CHR ''<'' then flush acc @ lex TagOpen cs else lex (Data (c # acc)) cs)"
| "lex TagOpen [] = [Chars ''<'']"
| "lex TagOpen (c # cs) =
     (if c = CHR ''/'' then lex (EndTagName []) cs
      else if isLetter c then lex (TagName [c]) cs
      else if c = CHR ''<'' then Chars ''<'' # lex TagOpen cs
      else lex (Data [c, CHR ''<'']) cs)"
| "lex (TagName nm) [] = []"
| "lex (TagName nm) (c # cs) =
     (if c = CHR ''>'' then StartTag (rev nm) [] # lex (Data []) cs
      else if isSpace c then lex (BeforeAttrName (rev nm) []) cs
      else lex (TagName (c # nm)) cs)"
| "lex (EndTagName nm) [] = []"
| "lex (EndTagName nm) (c # cs) =
     (if c = CHR ''>'' then EndTag (rev nm) # lex (Data []) cs
      else lex (EndTagName (c # nm)) cs)"
| "lex (BeforeAttrName nm as) [] = []"
| "lex (BeforeAttrName nm as) (c # cs) =
     (if c = CHR ''>'' then StartTag nm (rev as) # lex (Data []) cs
      else if isSpace c \<or> c = CHR ''/'' then lex (BeforeAttrName nm as) cs
      else lex (AttrName nm as [c]) cs)"
| "lex (AttrName nm as an) [] = []"
| "lex (AttrName nm as an) (c # cs) =
     (if c = CHR ''='' then lex (BeforeAttrValue nm as (rev an)) cs
      else if c = CHR ''>'' then StartTag nm (rev ((rev an, []) # as)) # lex (Data []) cs
      else if isSpace c then lex (BeforeAttrName nm ((rev an, []) # as)) cs
      else lex (AttrName nm as (c # an)) cs)"
| "lex (BeforeAttrValue nm as an) [] = []"
| "lex (BeforeAttrValue nm as an) (c # cs) =
     (if c = CHR 0x22 then lex (AttrValueQuoted nm as an []) cs
      else if c = CHR ''>'' then StartTag nm (rev ((an, []) # as)) # lex (Data []) cs
      else if isSpace c then lex (BeforeAttrValue nm as an) cs
      else lex (AttrValueUnquoted nm as an [c]) cs)"
| "lex (AttrValueQuoted nm as an av) [] = []"
| "lex (AttrValueQuoted nm as an av) (c # cs) =
     (if c = CHR 0x22 then lex (BeforeAttrName nm ((an, rev av) # as)) cs
      else lex (AttrValueQuoted nm as an (c # av)) cs)"
| "lex (AttrValueUnquoted nm as an av) [] = []"
| "lex (AttrValueUnquoted nm as an av) (c # cs) =
     (if c = CHR ''>'' then StartTag nm (rev ((an, rev av) # as)) # lex (Data []) cs
      else if isSpace c then lex (BeforeAttrName nm ((an, rev av) # as)) cs
      else lex (AttrValueUnquoted nm as an (c # av)) cs)"

definition isVoid :: "string \<Rightarrow> bool" where
  "isVoid t = (t \<in> set [''area'', ''base'', ''br'', ''col'', ''embed'', ''hr'', ''img'',
     ''input'', ''link'', ''meta'', ''source'', ''track'', ''wbr''])"

text \<open>
  The tree builder keeps the element being filled, with its children so far in reverse,
  and below it the stack of its open ancestors. The bottom frame is the fragment itself.
\<close>

type_synonym frame = "string \<times> (string \<times> string) list \<times> node list"

fun close :: "frame \<Rightarrow> frame \<Rightarrow> frame" where
  "close (t, as, ks) (pt, pas, pks) = (pt, pas, Element t as (rev ks) # pks)"

fun build :: "frame \<Rightarrow> frame list \<Rightarrow> token list \<Rightarrow> node list" where
  "build (t, as, ks) [] [] = rev ks"
| "build cur (p # st) [] = build (close cur p) st []"
| "build (t, as, ks) st (Chars s # ts) = build (t, as, Text s # ks) st ts"
| "build (t, as, ks) st (StartTag t' as' # ts) =
     (if isVoid t' then build (t, as, Element t' as' [] # ks) st ts
      else build (t', as', []) ((t, as, ks) # st) ts)"
| "build (t, as, ks) [] (EndTag t' # ts) = build (t, as, ks) [] ts"
| "build (t, as, ks) (p # st) (EndTag t' # ts) =
     (if t' = t then build (close (t, as, ks) p) st ts else build (t, as, ks) (p # st) ts)"

definition parseFragment :: "string \<Rightarrow> node list" where
  "parseFragment m = build ([], [], []) [] (lex (Data []) m)"

text \<open>
  The browser parses a fragment in the context of the element it is assigned to. Inside
  the grouping and sectioning elements listed here the parser starts in its ordinary state
  and the reading above applies. Inside other elements it may not: a \<^verbatim>\<open>textarea\<close>
  takes the whole string as text, a \<^verbatim>\<open>select\<close> keeps options and text and drops other
  tags, table parts and foreign elements have rules of their own. Their content is left
  unread. The empty string gives no nodes anywhere.
\<close>

definition flowContainer :: "string \<Rightarrow> bool" where
  "flowContainer t = (t \<in> set [''div'', ''nav'', ''aside'', ''section'', ''article'',
     ''header'', ''footer'', ''main'', ''form'', ''fieldset''])"

definition parseIn :: "string \<Rightarrow> string \<Rightarrow> node list" where
  "parseIn t m =
     (if flowContainer t then parseFragment m
      else if m = [] then []
      else [Unparsed t m])"

subsection \<open>Values handed to the charting library\<close>

text \<open>
  The configuration object of a chart is a script value. The numbers the script writes are
  small integer literals, so a number is an \<open>int\<close> here. An object keeps its properties
  in the order written.
\<close>

datatype jsval =
    JUndefined
  | JBool bool
  | JNum int
  | JStr string
  | JArr "jsval list"
  | JObj "(string \<times> jsval) list"

text \<open>Reading a property; a property that is not there reads as \<^verbatim>\<open>undefined\<close>.\<close>

fun property :: "string \<Rightarrow> jsval \<Rightarrow> jsval" where
  "property k (JObj kvs) = (case map_of kvs k of Some v \<Rightarrow> v | None \<Rightarrow> JUndefined)"
| "property k v = JUndefined"

subsection \<open>The state of the page and the outcome of a call\<close>

text \<open>
  A 2-D drawing context belongs to a canvas. The data URI of a canvas is not computed: a
  \<open>DataURL c\<close> stands for the encoded bitmap of the canvas \<open>c\<close>.
\<close>

datatype ctx = Context2D node

datatype url = DataURL node

text \<open>The anchor element that \<open>downloadChart\<close> creates, with the two attributes it sets.\<close>

record anchor =
  download :: "string option"
  href :: "url option"

text \<open>
  Besides the document, the page records what the script asks of its collaborators: the
  calls of the chart constructor (context and configuration), the downloads triggered
  (file name and address), and the elements for which fullscreen was requested.
\<close>

record page =
  document :: "node list"
  charts :: "(ctx \<times> jsval) list"
  downloads :: "(string \<times> url) list"
  fullscreen :: "node list"

text \<open>
  A statement or call completes, or throws. The script catches nothing, so what is thrown
  is uncaught. \<open>Reported\<close> is a typed failure handed to the caller, with the conditions
  that section 7 of the specification recommends.
\<close>

datatype exn = TypeError

datatype condition = ElementNotFound | ContextUnavailable | FullscreenDenied

datatype outcome = Completed | Uncaught exn | Reported condition

text \<open>Statements in sequence: the second runs only when the first completes.\<close>

definition andThen ::
  "(page \<Rightarrow> outcome \<times> page) \<Rightarrow> (page \<Rightarrow> outcome \<times> page) \<Rightarrow> page \<Rightarrow> outcome \<times> page" where
  "andThen f g s = (case f s of (Completed, s') \<Rightarrow> g s' | (out, s') \<Rightarrow> (out, s'))"

subsection \<open>The interfaces the script calls\<close>

text \<open>
  \<^verbatim>\<open>document.getElementById(i).innerHTML = m\<close>. Setting a property of \<^verbatim>\<open>null\<close>
  throws a \<^verbatim>\<open>TypeError\<close>. Otherwise the element found gets as its children what the
  markup is parsed to in the context of that element. \<open>getElementById\<close> returns
  elements only, and \<open>replaceChildren\<close> finds the element that \<open>getElementById\<close>
  found, so its \<open>None\<close> does not arise here.
\<close>

definition setInnerHTML :: "string \<Rightarrow> string \<Rightarrow> page \<Rightarrow> outcome \<times> page" where
  "setInnerHTML i m s =
     (case getElementById i (document s) of
        None \<Rightarrow> (Uncaught TypeError, s)
      | Some e \<Rightarrow>
          (case replaceChildren i (parseIn (tag e) m) (document s) of
             None \<Rightarrow> (Uncaught TypeError, s)
           | Some d \<Rightarrow> (Completed, s\<lparr>document := d\<rparr>)))"

fun isCanvas :: "node \<Rightarrow> bool" where
  "isCanvas (Element t as cs) = (t = ''canvas'')"
| "isCanvas (Text s) = False"
| "isCanvas (Unparsed t m) = False"

text \<open>
  \<^verbatim>\<open>e.getContext('2d')\<close> and \<^verbatim>\<open>e.toDataURL()\<close>, where \<open>e\<close> is what
  \<open>getElementById\<close> returned. Calling a method of \<^verbatim>\<open>null\<close> throws a
  \<^verbatim>\<open>TypeError\<close>, and so does calling either on an element that is not a canvas, which
  has no such method. A canvas is taken as the page supplies it to this script: no other
  script has claimed it for another kind of context, and nothing foreign has been drawn on
  it, so the context is there and the bitmap may be read.
\<close>

definition getContext :: "node option \<Rightarrow> exn + ctx" where
  "getContext e =
     (case e of
        None \<Rightarrow> Inl TypeError
      | Some c \<Rightarrow> if isCanvas c then Inr (Context2D c) else Inl TypeError)"

definition toDataURL :: "node option \<Rightarrow> exn + url" where
  "toDataURL e =
     (case e of
        None \<Rightarrow> Inl TypeError
      | Some c \<Rightarrow> if isCanvas c then Inr (DataURL c) else Inl TypeError)"

text \<open>
  \<^verbatim>\<open>new Chart(ctx, config)\<close>: the library, which the page has loaded before the script,
  is handed the context and the configuration. What it draws is its own business.
\<close>

definition newChart :: "ctx \<Rightarrow> jsval \<Rightarrow> page \<Rightarrow> outcome \<times> page" where
  "newChart ctx config s = (Completed, s\<lparr>charts := charts s @ [(ctx, config)]\<rparr>)"

text \<open>\<^verbatim>\<open>document.createElement('a')\<close>: a new anchor, in no document, with no attributes.\<close>

definition createElement_a :: anchor where
  "createElement_a = \<lparr>download = None, href = None\<rparr>"

text \<open>
  \<^verbatim>\<open>link.click()\<close>: an anchor with an address and a \<^verbatim>\<open>download\<close> attribute starts a
  download under that file name. Following a link without one is navigation, which the
  model does not follow.
\<close>

definition click :: "anchor \<Rightarrow> page \<Rightarrow> outcome \<times> page" where
  "click link s =
     (case (download link, href link) of
        (Some name, Some u) \<Rightarrow> (Completed, s\<lparr>downloads := downloads s @ [(name, u)]\<rparr>)
      | _ \<Rightarrow> (Completed, s))"

text \<open>
  \<^verbatim>\<open>e.requestFullscreen()\<close>, which every element has. The browser grants or denies the
  request later, outside the script.
\<close>

definition requestFullscreen :: "node option \<Rightarrow> page \<Rightarrow> outcome \<times> page" where
  "requestFullscreen e s =
     (case e of
        None \<Rightarrow> (Uncaught TypeError, s)
      | Some c \<Rightarrow> (Completed, s\<lparr>fullscreen := fullscreen s @ [c]\<rparr>))"

section \<open>The script\<close>

subsection \<open>The toolbar markup\<close>

text \<open>
  The template literal of lines 1 to 23, line by line. It begins with the line break after
  the opening backtick and ends with the one before the closing backtick.
\<close>

definition toolbarHTML :: string where
  \<open>toolbarHTML =
    ''\<newline>'' @
    ''  <label>Select Parameter</label>\<newline>'' @
    ''  <select class="form-select">\<newline>'' @
    ''    <option>Revenue</option>\<newline>'' @
    ''    <option>Profit</option>\<newline>'' @
    ''    <option>Employee Count</option>\<newline>'' @
    ''  </select>\<newline>'' @
    ''\<newline>'' @
    ''  <label>Preference</label>\<newline>'' @
    ''  <div class="btn-group" role="group">\<newline>'' @
    ''    <button class="btn btn-outline-info">Prefer Higher Value</button>\<newline>'' @
    ''    <button class="btn btn-outline-info">Prefer Lower Value</button>\<newline>'' @
    ''  </div>\<newline>'' @
    ''\<newline>'' @
    ''  <label>Min Value</label>\<newline>'' @
    ''  <input type="number" class="form-control" placeholder="e.g. 10">\<newline>'' @
    ''\<newline>'' @
    ''  <label>Max Value</label>\<newline>'' @
    ''  <input type="number" class="form-control" placeholder="e.g. 1000">\<newline>'' @
    ''\<newline>'' @
    ''  <label>Number of Companies</label>\<newline>'' @
    ''  <input type="number" class="form-control" min="1" max="25" placeholder="Max 25">\<newline>''\<close>

text \<open>
  The same markup written out as nodes, tag by tag and line by line: a label and the
  selector with its three options, a label and the group of two buttons, and three labels
  each with its numeric input. The line breaks and the indentation between the tags are
  text. It is there to be compared with what the parser makes of the string.
\<close>

definition toolbarNodes :: "node list" where
  "toolbarNodes =
    [Text ''\<newline>  '',
     Element ''label'' [] [Text ''Select Parameter''],
     Text ''\<newline>  '',
     Element ''select'' [(''class'', ''form-select'')]
      [Text ''\<newline>    '',
       Element ''option'' [] [Text ''Revenue''],
       Text ''\<newline>    '',
       Element ''option'' [] [Text ''Profit''],
       Text ''\<newline>    '',
       Element ''option'' [] [Text ''Employee Count''],
       Text ''\<newline>  ''],
     Text ''\<newline>\<newline>  '',
     Element ''label'' [] [Text ''Preference''],
     Text ''\<newline>  '',
     Element ''div'' [(''class'', ''btn-group''), (''role'', ''group'')]
      [Text ''\<newline>    '',
       Element ''button'' [(''class'', ''btn btn-outline-info'')] [Text ''Prefer Higher Value''],
       Text ''\<newline>    '',
       Element ''button'' [(''class'', ''btn btn-outline-info'')] [Text ''Prefer Lower Value''],
       Text ''\<newline>  ''],
     Text ''\<newline>\<newline>  '',
     Element ''label'' [] [Text ''Min Value''],
     Text ''\<newline>  '',
     Element ''input''
      [(''type'', ''number''), (''class'', ''form-control''), (''placeholder'', ''e.g. 10'')] [],
     Text ''\<newline>\<newline>  '',
     Element ''label'' [] [Text ''Max Value''],
     Text ''\<newline>  '',
     Element ''input''
      [(''type'', ''number''), (''class'', ''form-control''), (''placeholder'', ''e.g. 1000'')] [],
     Text ''\<newline>\<newline>  '',
     Element ''label'' [] [Text ''Number of Companies''],
     Text ''\<newline>  '',
     Element ''input''
      [(''type'', ''number''), (''class'', ''form-control''), (''min'', ''1''), (''max'', ''25''),
       (''placeholder'', ''Max 25'')] [],
     Text ''\<newline>'']"

subsection \<open>Rendering the toolbars\<close>

text \<open>Lines 26 and 27.\<close>

definition renderToolbars :: "page \<Rightarrow> outcome \<times> page" where
  "renderToolbars =
     andThen (setInnerHTML ''toolbar-top'' toolbarHTML)
             (setInnerHTML ''toolbar-sidebar'' toolbarHTML)"

subsection \<open>The placeholder charts\<close>

text \<open>The object literals of lines 31 to 46 and 49 to 62.\<close>

definition scatterConfig :: jsval where
  "scatterConfig = JObj [
     (''type'', JStr ''scatter''),
     (''data'', JObj [
       (''datasets'', JArr [JObj [
         (''label'', JStr ''Companies''),
         (''data'', JArr [
            JObj [(''x'', JNum 10), (''y'', JNum 20)],
            JObj [(''x'', JNum 15), (''y'', JNum 25)],
            JObj [(''x'', JNum 20), (''y'', JNum 30)]]),
         (''backgroundColor'', JStr ''#00ffff'')]])]),
     (''options'', JObj [
       (''responsive'', JBool True),
       (''plugins'', JObj [
         (''legend'', JObj [(''display'', JBool False)])])])]"

definition barConfig :: jsval where
  "barConfig = JObj [
     (''type'', JStr ''bar''),
     (''data'', JObj [
       (''labels'', JArr [JStr ''Company A'', JStr ''Company B'', JStr ''Company C'']),
       (''datasets'', JArr [JObj [
         (''label'', JStr ''Parameter''),
         (''data'', JArr [JNum 75, JNum 88, JNum 64]),
         (''backgroundColor'', JStr ''#00ffff'')]])]),
     (''options'', JObj [
       (''responsive'', JBool True)])]"

text \<open>Lines 30 to 46: \<open>ctx1\<close> and the scatter chart.\<close>

definition scatterChart :: "page \<Rightarrow> outcome \<times> page" where
  "scatterChart s =
     (case getContext (getElementById ''scatterPlot'' (document s)) of
        Inl e \<Rightarrow> (Uncaught e, s)
      | Inr ctx1 \<Rightarrow> newChart ctx1 scatterConfig s)"

text \<open>Lines 48 to 62: \<open>ctx2\<close> and the bar chart.\<close>

definition barChart :: "page \<Rightarrow> outcome \<times> page" where
  "barChart s =
     (case getContext (getElementById ''barChart'' (document s)) of
        Inl e \<Rightarrow> (Uncaught e, s)
      | Inr ctx2 \<Rightarrow> newChart ctx2 barConfig s)"

text \<open>The statements the script runs when it is loaded, in order.\<close>

definition script :: "page \<Rightarrow> outcome \<times> page" where
  "script = andThen renderToolbars (andThen scatterChart barChart)"

subsection \<open>The chart utilities\<close>

text \<open>
  Lines 64 to 70. The file name is set before \<open>toDataURL\<close> is called, but on an anchor
  that nothing else can reach, so a throw there leaves no trace of it.
\<close>

definition downloadChart :: "string \<Rightarrow> page \<Rightarrow> outcome \<times> page" where
  "downloadChart ident s =
     (let canvas = getElementById ident (document s);
          link = createElement_a;
          link = link\<lparr>download := Some (ident @ ''.png'')\<rparr>
      in case toDataURL canvas of
           Inl e \<Rightarrow> (Uncaught e, s)
         | Inr u \<Rightarrow> click (link\<lparr>href := Some u\<rparr>) s)"

text \<open>Lines 72 to 75.\<close>

definition expandChart :: "string \<Rightarrow> page \<Rightarrow> outcome \<times> page" where
  "expandChart ident s =
     (let canvas = getElementById ident (document s)
      in requestFullscreen canvas s)"

section \<open>Reading the results\<close>

text \<open>
  What follows is used only to state properties: the text of a node, the elements with a
  given tag name in tree order, the control that a label announces (the next element among
  the siblings after the label), the items of an array, and whether two characters stand
  next to each other in a string. The first four read nodes that are spelled out; of
  content left unread they say nothing.
\<close>

fun textContent :: "node \<Rightarrow> string"
  and textContents :: "node list \<Rightarrow> string" where
  "textContent (Text s) = s"
| "textContent (Element t as cs) = textContents cs"
| "textContents [] = []"
| "textContents (n # ns) = textContent n @ textContents ns"

fun byTagName :: "string \<Rightarrow> node \<Rightarrow> node list"
  and getElementsByTagName :: "string \<Rightarrow> node list \<Rightarrow> node list" where
  "byTagName t (Text s) = []"
| "byTagName t (Element t' as cs) =
     (if t' = t then [Element t' as cs] else []) @ getElementsByTagName t cs"
| "getElementsByTagName t [] = []"
| "getElementsByTagName t (n # ns) = byTagName t n @ getElementsByTagName t ns"

fun isLabel :: "string \<Rightarrow> node \<Rightarrow> bool" where
  "isLabel l (Element t as cs) = (t = ''label'' \<and> textContents cs = l)"
| "isLabel l (Text s) = False"

fun nextElement :: "node list \<Rightarrow> node option" where
  "nextElement [] = None"
| "nextElement (Text s # ns) = nextElement ns"
| "nextElement (Element t as cs # ns) = Some (Element t as cs)"

fun labelled :: "string \<Rightarrow> node list \<Rightarrow> node option" where
  "labelled l [] = None"
| "labelled l (n # ns) = (if isLabel l n then nextElement ns else labelled l ns)"

fun items :: "jsval \<Rightarrow> jsval list" where
  "items (JArr vs) = vs"
| "items v = []"

fun adjacent :: "char \<Rightarrow> char \<Rightarrow> string \<Rightarrow> bool" where
  "adjacent a b (x # y # zs) = ((x = a \<and> y = b) \<or> adjacent a b (y # zs))"
| "adjacent a b zs = False"

text \<open>
  A page that meets the script's contract: two mount points, the second with content
  of its own, and the two canvases. A page that has none of them. And a page whose second
  mount point lies inside the first.
\<close>

definition samplePage :: page where
  "samplePage = \<lparr>
     document = [
       Element ''nav'' [(''class'', ''navbar''), (''id'', ''toolbar-top'')] [],
       Element ''div'' [(''class'', ''row'')] [
         Element ''aside'' [(''id'', ''toolbar-sidebar'')] [Text ''Loading''],
         Element ''canvas'' [(''id'', ''scatterPlot'')] [],
         Element ''canvas'' [(''id'', ''barChart'')] []]],
     charts = [], downloads = [], fullscreen = []\<rparr>"

definition barePage :: page where
  "barePage = \<lparr>
     document = [Element ''p'' [(''id'', ''note'')] [Text ''No charts here'']],
     charts = [], downloads = [], fullscreen = []\<rparr>"

definition nestedPage :: page where
  "nestedPage = \<lparr>
     document = [
       Element ''div'' [(''id'', ''toolbar-top'')] [
         Element ''div'' [(''id'', ''toolbar-sidebar'')] [Text ''Filters'']],
       Element ''canvas'' [(''id'', ''scatterPlot'')] [],
       Element ''canvas'' [(''id'', ''barChart'')] []],
     charts = [], downloads = [], fullscreen = []\<rparr>"


section \<open>Properties\<close>

subsection \<open>Looking up and refilling elements\<close>

text \<open>
  The assignment to \<^verbatim>\<open>innerHTML\<close> finds an element exactly when \<open>getElementById\<close>
  does; afterwards the same lookup gives that element with the new children. A lookup for
  another id is not disturbed as long as the two elements lie apart and the new children
  carry no id. Refilling an element with the children it already has changes nothing.
\<close>

lemma replace_None_iff:
  "(replaceIn i new n = None) = (findById i n = None)"
  "(replaceChildren i new ns = None) = (getElementById i ns = None)"
  by (induction i n and i ns rule: findById_getElementById.induct)
     (auto split: option.splits)

lemma replace_Some_iff:
  "(\<exists>n'. replaceIn i new n = Some n') = (\<exists>e. findById i n = Some e)"
  "(\<exists>ns'. replaceChildren i new ns = Some ns') = (\<exists>e. getElementById i ns = Some e)"
  using replace_None_iff(1)[of i new n] replace_None_iff(2)[of i new ns] by auto

lemma found_after_replace:
  "replaceIn i new n = Some n' \<Longrightarrow> findById i n = Some e \<Longrightarrow>
     findById i n' = Some (Element (tag e) (attrs e) new)"
  "replaceChildren i new ns = Some ns' \<Longrightarrow> getElementById i ns = Some e \<Longrightarrow>
     getElementById i ns' = Some (Element (tag e) (attrs e) new)"
proof (induction i n and i ns arbitrary: n' and ns' rule: findById_getElementById.induct)
  case (1 i s)
  then show ?case by simp
next
  case (5 i t m)
  then show ?case by simp
next
  case (2 i t as cs)
  then show ?case by (auto split: if_splits)
next
  case (3 i)
  then show ?case by simp
next
  case (4 i n ns)
  show ?case
  proof (cases "findById i n")
    case None
    then have "replaceIn i new n = None" by (simp add: replace_None_iff)
    with None 4 show ?thesis by auto
  next
    case (Some e')
    then obtain x where x: "replaceIn i new n = Some x"
      using replace_Some_iff(1)[of i new n] by auto
    with Some 4 show ?thesis by auto
  qed
qed

lemma other_stays_absent:
  "findById j n = None \<Longrightarrow> getElementById j new = None \<Longrightarrow>
     replaceIn i new n = Some n' \<Longrightarrow> findById j n' = None"
  "getElementById j ns = None \<Longrightarrow> getElementById j new = None \<Longrightarrow>
     replaceChildren i new ns = Some ns' \<Longrightarrow> getElementById j ns' = None"
proof (induction i n and i ns arbitrary: n' and ns' rule: findById_getElementById.induct)
  case (1 i s)
  then show ?case by simp
next
  case (5 i t m)
  then show ?case by simp
next
  case (2 i t as cs)
  then show ?case by (auto split: if_splits)
next
  case (3 i)
  then show ?case by simp
next
  case (4 i n ns)
  from "4.prems"(1) have jn: "findById j n = None" and jns: "getElementById j ns = None"
    by (simp_all split: option.splits)
  show ?case
  proof (cases "replaceIn i new n")
    case None
    then have "findById i n = None" by (simp add: replace_None_iff)
    moreover from None "4.prems"(3) obtain z where z: "replaceChildren i new ns = Some z" "ns' = n # z"
      by auto
    ultimately have "getElementById j z = None"
      using "4.IH"(2) jns "4.prems"(2) by blast
    with z jn show ?thesis by simp
  next
    case (Some x)
    with "4.prems"(3) have ns': "ns' = x # ns" by simp
    from "4.IH"(1)[OF jn "4.prems"(2) Some] have "findById j x = None" .
    with ns' jns show ?thesis by simp
  qed
qed

lemma other_stays_found:
  "replaceIn i new n = Some n' \<Longrightarrow> findById j n = Some S \<Longrightarrow> findById i S = None \<Longrightarrow>
     findById i n = Some T \<Longrightarrow> findById j T = None \<Longrightarrow> getElementById j new = None \<Longrightarrow>
     findById j n' = Some S"
  "replaceChildren i new ns = Some ns' \<Longrightarrow> getElementById j ns = Some S \<Longrightarrow>
     findById i S = None \<Longrightarrow> getElementById i ns = Some T \<Longrightarrow> findById j T = None \<Longrightarrow>
     getElementById j new = None \<Longrightarrow> getElementById j ns' = Some S"
proof (induction i n and i ns arbitrary: n' and ns' rule: findById_getElementById.induct)
  case (1 i s)
  then show ?case by simp
next
  case (5 i t m)
  then show ?case by simp
next
  case (2 i t as cs)
  show ?case
  proof (cases "hasId i as")
    case True
    with "2.prems"(4) have "T = Element t as cs" by simp
    with "2.prems"(2,5) show ?thesis by simp
  next
    case notI: False
    with "2.prems"(1) obtain cs' where cs': "replaceChildren i new cs = Some cs'"
      and n': "n' = Element t as cs'"
      by auto
    show ?thesis
    proof (cases "hasId j as")
      case True
      with "2.prems"(2) have "S = Element t as cs" by simp
      with "2.prems"(3) notI have "getElementById i cs = None" by simp
      then have "replaceChildren i new cs = None" by (simp add: replace_None_iff)
      with cs' show ?thesis by simp
    next
      case False
      with "2.prems"(2) have "getElementById j cs = Some S" by simp
      moreover from notI "2.prems"(4) have "getElementById i cs = Some T" by simp
      ultimately have "getElementById j cs' = Some S"
        using "2.IH"[OF notI cs' _ "2.prems"(3) _ "2.prems"(5,6)] by simp
      with False n' show ?thesis by simp
    qed
  qed
next
  case (3 i)
  then show ?case by simp
next
  case (4 i n ns)
  show ?case
  proof (cases "replaceIn i new n")
    case None
    then have iNone: "findById i n = None" by (simp add: replace_None_iff)
    with "4.prems"(4) have iT: "getElementById i ns = Some T" by simp
    from None "4.prems"(1) obtain z where z: "replaceChildren i new ns = Some z"
      and ns': "ns' = n # z"
      by auto
    show ?thesis
    proof (cases "findById j n")
      case jNone: None
      with "4.prems"(2) have "getElementById j ns = Some S" by simp
      from "4.IH"(2)[OF iNone z this "4.prems"(3) iT "4.prems"(5,6)]
      have "getElementById j z = Some S" .
      with jNone ns' show ?thesis by simp
    next
      case (Some S')
      with "4.prems"(2) ns' show ?thesis by simp
    qed
  next
    case (Some x)
    with "4.prems"(1) have ns': "ns' = x # ns" by simp
    from Some obtain T' where T': "findById i n = Some T'"
      using replace_Some_iff(1)[of i new n] by auto
    with "4.prems"(4) have TT: "T' = T" by simp
    show ?thesis
    proof (cases "findById j n")
      case None
      with "4.prems"(2) have "getElementById j ns = Some S" by simp
      moreover from other_stays_absent(1)[OF None "4.prems"(6) Some]
      have "findById j x = None" .
      ultimately show ?thesis using ns' by simp
    next
      case jSome: (Some S')
      with "4.prems"(2) have "S' = S" by simp
      with jSome have "findById j n = Some S" by simp
      from "4.IH"(1)[OF Some this "4.prems"(3) T'[unfolded TT] "4.prems"(5,6)]
      have "findById j x = Some S" .
      with ns' show ?thesis by simp
    qed
  qed
qed

lemma replace_same:
  "findById i n = Some e \<Longrightarrow> children e = new \<Longrightarrow> replaceIn i new n = Some n"
  "getElementById i ns = Some e \<Longrightarrow> children e = new \<Longrightarrow> replaceChildren i new ns = Some ns"
proof (induction i n and i ns rule: findById_getElementById.induct)
  case (1 i s)
  then show ?case by simp
next
  case (5 i t m)
  then show ?case by simp
next
  case (2 i t as cs)
  then show ?case by (cases "hasId i as") auto
next
  case (3 i)
  then show ?case by simp
next
  case (4 i n ns)
  show ?case
  proof (cases "findById i n")
    case None
    then have "replaceIn i new n = None" by (simp add: replace_None_iff)
    with None 4 show ?thesis by simp
  next
    case (Some e')
    with 4 show ?thesis by simp
  qed
qed

lemma found_is_element:
  "findById i n = Some e \<Longrightarrow> \<exists>t as cs. e = Element t as cs \<and> hasId i as"
  "getElementById i ns = Some e \<Longrightarrow> \<exists>t as cs. e = Element t as cs \<and> hasId i as"
  by (induction i n and i ns rule: findById_getElementById.induct)
     (auto split: if_splits option.splits)

lemma refilled_has_no_other:
  assumes "getElementById i ns = Some e" and "findById j e = None"
    and "getElementById j new = None"
  shows "findById j (Element (tag e) (attrs e) new) = None"
proof -
  from found_is_element(2)[OF assms(1)] obtain t as cs where "e = Element t as cs"
    by blast
  with assms(2,3) show ?thesis by (simp split: if_splits)
qed

subsection \<open>The toolbar markup as a tree\<close>

text \<open>
  The nodes the markup of the toolbar is read as. Line breaks and indentation between the
  tags are text nodes. No element of the fragment has an id.
\<close>

lemma parse_toolbarHTML:
  "parseFragment toolbarHTML =
    [Text ''\<newline>  '',
     Element ''label'' [] [Text ''Select Parameter''],
     Text ''\<newline>  '',
     Element ''select'' [(''class'', ''form-select'')]
      [Text ''\<newline>    '',
       Element ''option'' [] [Text ''Revenue''],
       Text ''\<newline>    '',
       Element ''option'' [] [Text ''Profit''],
       Text ''\<newline>    '',
       Element ''option'' [] [Text ''Employee Count''],
       Text ''\<newline>  ''],
     Text ''\<newline>\<newline>  '',
     Element ''label'' [] [Text ''Preference''],
     Text ''\<newline>  '',
     Element ''div'' [(''class'', ''btn-group''), (''role'', ''group'')]
      [Text ''\<newline>    '',
       Element ''button'' [(''class'', ''btn btn-outline-info'')] [Text ''Prefer Higher Value''],
       Text ''\<newline>    '',
       Element ''button'' [(''class'', ''btn btn-outline-info'')] [Text ''Prefer Lower Value''],
       Text ''\<newline>  ''],
     Text ''\<newline>\<newline>  '',
     Element ''label'' [] [Text ''Min Value''],
     Text ''\<newline>  '',
     Element ''input''
      [(''type'', ''number''), (''class'', ''form-control''), (''placeholder'', ''e.g. 10'')] [],
     Text ''\<newline>\<newline>  '',
     Element ''label'' [] [Text ''Max Value''],
     Text ''\<newline>  '',
     Element ''input''
      [(''type'', ''number''), (''class'', ''form-control''), (''placeholder'', ''e.g. 1000'')] [],
     Text ''\<newline>\<newline>  '',
     Element ''label'' [] [Text ''Number of Companies''],
     Text ''\<newline>  '',
     Element ''input''
      [(''type'', ''number''), (''class'', ''form-control''), (''min'', ''1''), (''max'', ''25''),
       (''placeholder'', ''Max 25'')] [],
     Text ''\<newline>'']"
  by code_simp

lemma toolbar_no_ids: "getElementById j (parseFragment toolbarHTML) = None"
  unfolding parse_toolbarHTML by (simp add: hasId_def)

lemma toolbarHTML_plain: "CHR ''&'' \<notin> set toolbarHTML"
  by (simp add: toolbarHTML_def)

lemma toolbar_no_mounts: "replaceChildren j new (parseFragment toolbarHTML) = None"
  by (simp add: replace_None_iff toolbar_no_ids)

text \<open>
  The parser makes of the string the nodes written out by hand. The string names no id:
  the letters i and d never stand next to each other in it, in either case, so no element
  that any reading of it yields can carry an \<^verbatim>\<open>id\<close> attribute.
\<close>

lemma toolbarNodes_parsed: "parseFragment toolbarHTML = toolbarNodes"
  unfolding parse_toolbarHTML toolbarNodes_def by (rule refl)

lemma toolbarHTML_names_no_id:
  "\<not> adjacent CHR ''i'' CHR ''d'' toolbarHTML"
  "CHR ''I'' \<notin> set toolbarHTML"
  "CHR ''D'' \<notin> set toolbarHTML"
  by (simp_all add: toolbarHTML_def)

lemma toolbarNodes_no_ids: "getElementById j toolbarNodes = None"
  using toolbar_no_ids[of j] by (simp add: toolbarNodes_parsed)

lemma toolbarNodes_no_mounts: "replaceChildren j new toolbarNodes = None"
  by (simp add: replace_None_iff toolbarNodes_no_ids)


lemma parseIn_no_ids: "getElementById j (parseIn t toolbarHTML) = None"
  by (simp add: parseIn_def toolbar_no_ids)

lemma parseIn_no_mounts: "replaceChildren j new (parseIn t toolbarHTML) = None"
  by (simp add: replace_None_iff parseIn_no_ids)

lemma setInnerHTML_found:
  assumes "getElementById i (document s) = Some e"
  shows "\<exists>d. replaceChildren i (parseIn (tag e) m) (document s) = Some d
    \<and> setInnerHTML i m s = (Completed, s\<lparr>document := d\<rparr>)"
proof -
  from assms obtain d where "replaceChildren i (parseIn (tag e) m) (document s) = Some d"
    using replace_Some_iff(2)[of i "parseIn (tag e) m" "document s"] by auto
  with assms show ?thesis by (simp add: setInnerHTML_def)
qed

lemma setInnerHTML_absent:
  assumes "getElementById i (document s) = None"
  shows "setInnerHTML i m s = (Uncaught TypeError, s)"
  using assms by (simp add: setInnerHTML_def)

lemma renderToolbars_result:
  assumes top: "getElementById ''toolbar-top'' (document s) = Some T"
    and side: "getElementById ''toolbar-sidebar'' (document s) = Some S"
    and apartT: "findById ''toolbar-sidebar'' T = None"
    and apartS: "findById ''toolbar-top'' S = None"
  shows "\<exists>d. renderToolbars s = (Completed, s\<lparr>document := d\<rparr>)
    \<and> getElementById ''toolbar-top'' d
        = Some (Element (tag T) (attrs T) (parseIn (tag T) toolbarHTML))
    \<and> getElementById ''toolbar-sidebar'' d
        = Some (Element (tag S) (attrs S) (parseIn (tag S) toolbarHTML))"
proof -
  let ?FT = "parseIn (tag T) toolbarHTML"
  let ?FS = "parseIn (tag S) toolbarHTML"
  let ?T' = "Element (tag T) (attrs T) ?FT"
  from setInnerHTML_found[OF top, of toolbarHTML] obtain d1
    where d1: "replaceChildren ''toolbar-top'' ?FT (document s) = Some d1"
      and r1: "setInnerHTML ''toolbar-top'' toolbarHTML s = (Completed, s\<lparr>document := d1\<rparr>)"
    by blast
  have topd1: "getElementById ''toolbar-top'' d1 = Some ?T'"
    by (rule found_after_replace(2)[OF d1 top])
  have sided1: "getElementById ''toolbar-sidebar'' d1 = Some S"
    by (rule other_stays_found(2)[OF d1 side apartS top apartT parseIn_no_ids])
  then have "getElementById ''toolbar-sidebar'' (document (s\<lparr>document := d1\<rparr>)) = Some S"
    by simp
  from setInnerHTML_found[OF this, of toolbarHTML] obtain d2
    where d2: "replaceChildren ''toolbar-sidebar'' ?FS d1 = Some d2"
      and r2: "setInnerHTML ''toolbar-sidebar'' toolbarHTML (s\<lparr>document := d1\<rparr>)
                 = (Completed, s\<lparr>document := d2\<rparr>)"
    by auto
  have sided2: "getElementById ''toolbar-sidebar'' d2 = Some (Element (tag S) (attrs S) ?FS)"
    by (rule found_after_replace(2)[OF d2 sided1])
  have "findById ''toolbar-sidebar'' ?T' = None"
    by (rule refilled_has_no_other[OF top apartT parseIn_no_ids])
  then have topd2: "getElementById ''toolbar-top'' d2 = Some ?T'"
    by (rule other_stays_found(2)[OF d2 topd1 _ sided1 apartS parseIn_no_ids])
  have "renderToolbars s = (Completed, s\<lparr>document := d2\<rparr>)"
    using r1 r2 by (simp add: renderToolbars_def andThen_def)
  with topd2 sided2 show ?thesis by blast
qed

lemma sample_lookups:
  "getElementById ''toolbar-top'' (document samplePage) =
     Some (Element ''nav'' [(''class'', ''navbar''), (''id'', ''toolbar-top'')] [])"
  "getElementById ''toolbar-sidebar'' (document samplePage) =
     Some (Element ''aside'' [(''id'', ''toolbar-sidebar'')] [Text ''Loading''])"
  "getElementById ''scatterPlot'' (document samplePage) =
     Some (Element ''canvas'' [(''id'', ''scatterPlot'')] [])"
  "getElementById ''barChart'' (document samplePage) =
     Some (Element ''canvas'' [(''id'', ''barChart'')] [])"
  by (simp_all add: samplePage_def hasId_def)

lemma nested_lookups:
  "getElementById ''toolbar-top'' (document nestedPage) =
     Some (Element ''div'' [(''id'', ''toolbar-top'')]
            [Element ''div'' [(''id'', ''toolbar-sidebar'')] [Text ''Filters'']])"
  "getElementById ''toolbar-sidebar'' (document nestedPage) =
     Some (Element ''div'' [(''id'', ''toolbar-sidebar'')] [Text ''Filters''])"
  by (simp_all add: nestedPage_def hasId_def)

subsection \<open>The charts\<close>

text \<open>
  C1. Where \<^verbatim>\<open>scatterPlot\<close> is a canvas, the first block of the chart initializer
  completes and hands the library one chart, on that canvas's 2-D context: its type is
  \<^verbatim>\<open>scatter\<close>, it has a single dataset, labelled Companies, whose data are exactly
  the points (10,20), (15,25), (20,30); \<^verbatim>\<open>plugins.legend.display\<close> is false and
  \<^verbatim>\<open>responsive\<close> is true.
\<close>

theorem scatter_chart_constructed:
  assumes "getElementById ''scatterPlot'' (document s) = Some c" and "isCanvas c"
  shows "scatterChart s = (Completed, s\<lparr>charts := charts s @ [(Context2D c, scatterConfig)]\<rparr>)
    \<and> property ''type'' scatterConfig = JStr ''scatter''
    \<and> map (\<lambda>ds. (property ''label'' ds,
                  map (\<lambda>p. (property ''x'' p, property ''y'' p)) (items (property ''data'' ds))))
          (items (property ''datasets'' (property ''data'' scatterConfig)))
        = [(JStr ''Companies'', [(JNum 10, JNum 20), (JNum 15, JNum 25), (JNum 20, JNum 30)])]
    \<and> property ''display'' (property ''legend'' (property ''plugins''
          (property ''options'' scatterConfig))) = JBool False
    \<and> property ''responsive'' (property ''options'' scatterConfig) = JBool True"
  using assms by (simp add: scatterChart_def getContext_def newChart_def scatterConfig_def)

theorem scatter_chart_constructed_witness:
  "getElementById ''scatterPlot'' (document samplePage)
     = Some (Element ''canvas'' [(''id'', ''scatterPlot'')] [])
   \<and> isCanvas (Element ''canvas'' [(''id'', ''scatterPlot'')] [])
   \<and> charts (snd (scatterChart samplePage))
     = [(Context2D (Element ''canvas'' [(''id'', ''scatterPlot'')] []), scatterConfig)]"
proof -
  have h: "getElementById ''scatterPlot'' (document samplePage)
     = Some (Element ''canvas'' [(''id'', ''scatterPlot'')] [])"
    by (rule sample_lookups)
  have c: "isCanvas (Element ''canvas'' [(''id'', ''scatterPlot'')] [])" by simp
  from scatter_chart_constructed[OF h c] h c show ?thesis
    by (simp add: samplePage_def)
qed

text \<open>
  C2. Where \<^verbatim>\<open>barChart\<close> is a canvas, the second block completes and hands the library
  one chart of type \<^verbatim>\<open>bar\<close> with the labels Company A, Company B, Company C and a
  single dataset, labelled Parameter, with the values 75, 88, 64 in that order. Its options
  are \<^verbatim>\<open>responsive: true\<close> and nothing else, so no legend display option is set.
\<close>

theorem bar_chart_constructed:
  assumes "getElementById ''barChart'' (document s) = Some c" and "isCanvas c"
  shows "barChart s = (Completed, s\<lparr>charts := charts s @ [(Context2D c, barConfig)]\<rparr>)
    \<and> property ''type'' barConfig = JStr ''bar''
    \<and> property ''labels'' (property ''data'' barConfig)
        = JArr [JStr ''Company A'', JStr ''Company B'', JStr ''Company C'']
    \<and> map (\<lambda>ds. (property ''label'' ds, property ''data'' ds))
          (items (property ''datasets'' (property ''data'' barConfig)))
        = [(JStr ''Parameter'', JArr [JNum 75, JNum 88, JNum 64])]
    \<and> property ''options'' barConfig = JObj [(''responsive'', JBool True)]
    \<and> property ''display'' (property ''legend'' (property ''plugins''
          (property ''options'' barConfig))) = JUndefined"
  using assms by (simp add: barChart_def getContext_def newChart_def barConfig_def)

theorem bar_chart_constructed_witness:
  "getElementById ''barChart'' (document samplePage)
     = Some (Element ''canvas'' [(''id'', ''barChart'')] [])
   \<and> isCanvas (Element ''canvas'' [(''id'', ''barChart'')] [])
   \<and> charts (snd (barChart samplePage))
     = [(Context2D (Element ''canvas'' [(''id'', ''barChart'')] []), barConfig)]"
proof -
  have h: "getElementById ''barChart'' (document samplePage)
     = Some (Element ''canvas'' [(''id'', ''barChart'')] [])"
    by (rule sample_lookups)
  have c: "isCanvas (Element ''canvas'' [(''id'', ''barChart'')] [])" by simp
  from bar_chart_constructed[OF h c] h c show ?thesis
    by (simp add: samplePage_def)
qed

subsection \<open>The toolbars\<close>




text \<open>
  C4. The toolbar fragment has exactly one \<^verbatim>\<open>select\<close> element, and its options are
  Revenue, Profit, Employee Count, in that order; the fragment has no other option.
\<close>

theorem one_dropdown_three_options:
  "map (\<lambda>sel. map textContent (getElementsByTagName ''option'' (children sel)))
       (getElementsByTagName ''select'' (parseFragment toolbarHTML))
     = [[''Revenue'', ''Profit'', ''Employee Count'']]
   \<and> map textContent (getElementsByTagName ''option'' (parseFragment toolbarHTML))
     = [''Revenue'', ''Profit'', ''Employee Count'']"
  unfolding parse_toolbarHTML by simp

text \<open>
  C5. The control labelled Number of Companies is a numeric \<^verbatim>\<open>input\<close> that declares
  \<^verbatim>\<open>min="1"\<close> and \<^verbatim>\<open>max="25"\<close>; the other two inputs of the fragment declare
  neither.
\<close>

theorem company_count_bounds:
  "map_option (\<lambda>e. (tag e, map_of (attrs e) ''type'', map_of (attrs e) ''min'',
                      map_of (attrs e) ''max''))
       (labelled ''Number of Companies'' (parseFragment toolbarHTML))
     = Some (''input'', Some ''number'', Some ''1'', Some ''25'')
   \<and> map (\<lambda>e. (map_of (attrs e) ''min'', map_of (attrs e) ''max''))
       (getElementsByTagName ''input'' (parseFragment toolbarHTML))
     = [(None, None), (None, None), (Some ''1'', Some ''25'')]"
  unfolding parse_toolbarHTML by simp

subsection \<open>The chart utilities\<close>

text \<open>
  C6. For every identifier that resolves to a canvas, \<open>downloadChart\<close> completes and
  triggers exactly one download, named by the identifier followed by \<^verbatim>\<open>.png\<close>, of the
  data URI of that canvas; nothing else on the page changes. With \<^verbatim>\<open>scatterPlot\<close> the
  file name is \<^verbatim>\<open>scatterPlot.png\<close>.
\<close>

theorem download_named_after_canvas:
  assumes "getElementById ident (document s) = Some c" and "isCanvas c"
  shows "downloadChart ident s
    = (Completed, s\<lparr>downloads := downloads s @ [(ident @ ''.png'', DataURL c)]\<rparr>)"
  using assms by (simp add: downloadChart_def toDataURL_def click_def createElement_a_def)

theorem download_named_after_canvas_witness:
  "getElementById ''scatterPlot'' (document samplePage)
     = Some (Element ''canvas'' [(''id'', ''scatterPlot'')] [])
   \<and> isCanvas (Element ''canvas'' [(''id'', ''scatterPlot'')] [])
   \<and> fst (downloadChart ''scatterPlot'' samplePage) = Completed
   \<and> downloads (snd (downloadChart ''scatterPlot'' samplePage))
     = [(''scatterPlot.png'', DataURL (Element ''canvas'' [(''id'', ''scatterPlot'')] []))]"
proof -
  have h: "getElementById ''scatterPlot'' (document samplePage)
     = Some (Element ''canvas'' [(''id'', ''scatterPlot'')] [])"
    by (rule sample_lookups)
  have c: "isCanvas (Element ''canvas'' [(''id'', ''scatterPlot'')] [])" by simp
  from download_named_after_canvas[OF h c] h c show ?thesis
    by (simp add: samplePage_def)
qed

text \<open>
  C7, as the script behaves. For an identifier that resolves to no element,
  \<open>expandChart\<close> calls \<^verbatim>\<open>requestFullscreen\<close> on \<^verbatim>\<open>null\<close>: an uncaught
  \<^verbatim>\<open>TypeError\<close>. No fullscreen request is made and the page is unchanged. The script
  reports no \<open>ElementNotFound\<close> condition, there or anywhere.
\<close>

theorem expandChart_missing_element:
  assumes "getElementById ident (document s) = None"
  shows "expandChart ident s = (Uncaught TypeError, s)"
  using assms by (simp add: expandChart_def requestFullscreen_def)

theorem expandChart_missing_element_witness:
  "getElementById ''barChart'' (document barePage) = None
   \<and> expandChart ''barChart'' barePage = (Uncaught TypeError, barePage)"
proof -
  have h: "getElementById ''barChart'' (document barePage) = None"
    by (simp add: barePage_def hasId_def)
  from expandChart_missing_element[OF h] h show ?thesis by simp
qed

theorem expandChart_reports_nothing:
  "getElementById ''scatterPlot'' (document barePage) = None
   \<and> fst (expandChart ''scatterPlot'' barePage) \<noteq> Reported ElementNotFound
   \<and> fst (expandChart ''scatterPlot'' barePage) = Uncaught TypeError"
  by (simp add: expandChart_def requestFullscreen_def barePage_def hasId_def)

text \<open>
  C8. In whatever state a block of the chart initializer runs: when its canvas is not in
  the document, acquiring the 2-D context throws, the block ends with that uncaught
  \<^verbatim>\<open>TypeError\<close>, and the page is as before, so the chart constructor was not called.
\<close>

theorem absent_canvas_no_chart:
  "(getElementById ''scatterPlot'' (document s) = None \<longrightarrow>
      getContext (getElementById ''scatterPlot'' (document s)) = Inl TypeError
      \<and> scatterChart s = (Uncaught TypeError, s))
   \<and> (getElementById ''barChart'' (document s) = None \<longrightarrow>
      getContext (getElementById ''barChart'' (document s)) = Inl TypeError
      \<and> barChart s = (Uncaught TypeError, s))"
  by (simp add: scatterChart_def barChart_def getContext_def)

theorem absent_canvas_no_chart_witness:
  "getElementById ''scatterPlot'' (document barePage) = None
   \<and> getElementById ''barChart'' (document barePage) = None
   \<and> scatterChart barePage = (Uncaught TypeError, barePage)
   \<and> barChart barePage = (Uncaught TypeError, barePage)
   \<and> charts (snd (scatterChart barePage)) = []
   \<and> charts (snd (barChart barePage)) = []"
proof -
  have h1: "getElementById ''scatterPlot'' (document barePage) = None"
    and h2: "getElementById ''barChart'' (document barePage) = None"
    by (simp_all add: barePage_def hasId_def)
  from absent_canvas_no_chart[of barePage] h1 h2
  have "scatterChart barePage = (Uncaught TypeError, barePage)"
    and "barChart barePage = (Uncaught TypeError, barePage)"
    by simp_all
  with h1 h2 show ?thesis by (simp add: barePage_def)
qed

text \<open>
  C9. \<open>downloadChart\<close> leaves the document as it was, whether it completes or throws:
  the anchor it creates is never attached.
\<close>

theorem downloadChart_leaves_document:
  "document (snd (downloadChart ident s)) = document s"
  by (simp add: downloadChart_def toDataURL_def click_def createElement_a_def
      split: option.splits sum.splits)

text \<open>
  C10. Where both mount points exist and neither lies inside the other, rendering the
  toolbars a second time completes as the first did and leaves the page exactly as the
  first rendering left it.
\<close>

theorem toolbars_idempotent:
  assumes "getElementById ''toolbar-top'' (document s) = Some T"
    and "getElementById ''toolbar-sidebar'' (document s) = Some S"
    and "findById ''toolbar-sidebar'' T = None"
    and "findById ''toolbar-top'' S = None"
  shows "renderToolbars (snd (renderToolbars s)) = renderToolbars s"
proof -
  let ?FT = "parseIn (tag T) toolbarHTML"
  let ?FS = "parseIn (tag S) toolbarHTML"
  from renderToolbars_result[OF assms] obtain d
    where r: "renderToolbars s = (Completed, s\<lparr>document := d\<rparr>)"
      and t: "getElementById ''toolbar-top'' d = Some (Element (tag T) (attrs T) ?FT)"
      and u: "getElementById ''toolbar-sidebar'' d = Some (Element (tag S) (attrs S) ?FS)"
    by blast
  have "replaceChildren ''toolbar-top'' ?FT d = Some d"
    by (rule replace_same(2)[OF t]) simp
  moreover have "replaceChildren ''toolbar-sidebar'' ?FS d = Some d"
    by (rule replace_same(2)[OF u]) simp
  ultimately have "renderToolbars (s\<lparr>document := d\<rparr>) = (Completed, s\<lparr>document := d\<rparr>)"
    using t u by (simp add: renderToolbars_def andThen_def setInnerHTML_def)
  with r show ?thesis by simp
qed

theorem toolbars_idempotent_witness:
  "getElementById ''toolbar-top'' (document samplePage)
     = Some (Element ''nav'' [(''class'', ''navbar''), (''id'', ''toolbar-top'')] [])
   \<and> getElementById ''toolbar-sidebar'' (document samplePage)
     = Some (Element ''aside'' [(''id'', ''toolbar-sidebar'')] [Text ''Loading''])
   \<and> findById ''toolbar-sidebar''
       (Element ''nav'' [(''class'', ''navbar''), (''id'', ''toolbar-top'')] []) = None
   \<and> findById ''toolbar-top''
       (Element ''aside'' [(''id'', ''toolbar-sidebar'')] [Text ''Loading'']) = None
   \<and> renderToolbars (snd (renderToolbars samplePage)) = renderToolbars samplePage"
proof -
  have a: "findById ''toolbar-sidebar''
      (Element ''nav'' [(''class'', ''navbar''), (''id'', ''toolbar-top'')] []) = None"
    and b: "findById ''toolbar-top''
      (Element ''aside'' [(''id'', ''toolbar-sidebar'')] [Text ''Loading'']) = None"
    by (simp_all add: hasId_def)
  from toolbars_idempotent[OF sample_lookups(1) sample_lookups(2) a b]
    sample_lookups(1) sample_lookups(2) a b
  show ?thesis by simp
qed

subsection \<open>The script from start to end\<close>

text \<open>
  Rendering the toolbars cannot bring an absent element into the document and does not
  touch the charts. So when \<^verbatim>\<open>scatterPlot\<close> is missing as the script starts, the script
  ends with an uncaught \<^verbatim>\<open>TypeError\<close> and no chart constructed, wherever it stops.
\<close>

lemma setInnerHTML_toolbar_keeps_absent:
  assumes "getElementById j (document s) = None"
  shows "getElementById j (document (snd (setInnerHTML i toolbarHTML s))) = None"
proof (cases "getElementById i (document s)")
  case None
  with assms show ?thesis by (simp add: setInnerHTML_absent)
next
  case (Some e)
  from setInnerHTML_found[OF Some, of toolbarHTML] obtain d
    where d: "replaceChildren i (parseIn (tag e) toolbarHTML) (document s) = Some d"
      and r: "setInnerHTML i toolbarHTML s = (Completed, s\<lparr>document := d\<rparr>)"
    by blast
  from other_stays_absent(2)[OF assms parseIn_no_ids d] r
  show ?thesis by simp
qed

lemma setInnerHTML_frame:
  "charts (snd (setInnerHTML i m s)) = charts s"
  "fst (setInnerHTML i m s) = Completed \<or> fst (setInnerHTML i m s) = Uncaught TypeError"
  by (simp_all add: setInnerHTML_def split: option.splits)

lemma renderToolbars_keeps_absent:
  assumes "getElementById j (document s) = None"
  shows "getElementById j (document (snd (renderToolbars s))) = None"
proof (cases "setInnerHTML ''toolbar-top'' toolbarHTML s")
  case (Pair out s1)
  from setInnerHTML_toolbar_keeps_absent[OF assms, of "''toolbar-top''"] Pair
  have s1: "getElementById j (document s1) = None" by simp
  show ?thesis
  proof (cases out)
    case Completed
    with Pair setInnerHTML_toolbar_keeps_absent[OF s1, of "''toolbar-sidebar''"]
    show ?thesis by (simp add: renderToolbars_def andThen_def)
  next
    case (Uncaught e)
    with Pair s1 show ?thesis by (simp add: renderToolbars_def andThen_def)
  next
    case (Reported c)
    with Pair s1 show ?thesis by (simp add: renderToolbars_def andThen_def)
  qed
qed

lemma renderToolbars_frame:
  "charts (snd (renderToolbars s)) = charts s"
  "fst (renderToolbars s) = Completed \<or> fst (renderToolbars s) = Uncaught TypeError"
proof -
  obtain out s1 where p: "setInnerHTML ''toolbar-top'' toolbarHTML s = (out, s1)"
    by (cases "setInnerHTML ''toolbar-top'' toolbarHTML s")
  from setInnerHTML_frame[of "''toolbar-top''" toolbarHTML s] p
  have c1: "charts s1 = charts s" and o1: "out = Completed \<or> out = Uncaught TypeError"
    by simp_all
  from o1 p c1 setInnerHTML_frame(1)[of "''toolbar-sidebar''" toolbarHTML s1]
  show "charts (snd (renderToolbars s)) = charts s"
    by (auto simp: renderToolbars_def andThen_def)
  from o1 p setInnerHTML_frame(2)[of "''toolbar-sidebar''" toolbarHTML s1]
  show "fst (renderToolbars s) = Completed \<or> fst (renderToolbars s) = Uncaught TypeError"
    by (auto simp: renderToolbars_def andThen_def)
qed

lemma script_without_scatterPlot:
  assumes "getElementById ''scatterPlot'' (document s) = None"
  shows "fst (script s) = Uncaught TypeError \<and> charts (snd (script s)) = charts s"
proof -
  obtain out s1 where p: "renderToolbars s = (out, s1)"
    by (cases "renderToolbars s")
  from renderToolbars_keeps_absent[OF assms] p
  have "getElementById ''scatterPlot'' (document s1) = None" by simp
  then have "scatterChart s1 = (Uncaught TypeError, s1)"
    by (simp add: scatterChart_def getContext_def)
  with p renderToolbars_frame[of s] show ?thesis
    by (auto simp: script_def andThen_def)
qed

lemma script_samplePage:
  "script samplePage = (Completed, \<lparr>
     document = [
       Element ''nav'' [(''class'', ''navbar''), (''id'', ''toolbar-top'')] toolbarNodes,
       Element ''div'' [(''class'', ''row'')] [
         Element ''aside'' [(''id'', ''toolbar-sidebar'')] toolbarNodes,
         Element ''canvas'' [(''id'', ''scatterPlot'')] [],
         Element ''canvas'' [(''id'', ''barChart'')] []]],
     charts = [
       (Context2D (Element ''canvas'' [(''id'', ''scatterPlot'')] []), scatterConfig),
       (Context2D (Element ''canvas'' [(''id'', ''barChart'')] []), barConfig)],
     downloads = [], fullscreen = []\<rparr>)"
  by (simp add: script_def andThen_def renderToolbars_def setInnerHTML_def scatterChart_def
      barChart_def getContext_def newChart_def samplePage_def hasId_def parseIn_def
      flowContainer_def toolbarNodes_parsed toolbarNodes_no_ids toolbarNodes_no_mounts)

text \<open>
  A mount point that is none of the containers listed, here a \<^verbatim>\<open>select\<close>: rendering
  completes, and what the mount point then holds is left unread. Nothing is said about
  how it compares with the content of the other.
\<close>

lemma select_mount_left_unread:
  "renderToolbars \<lparr>
     document = [Element ''select'' [(''id'', ''toolbar-top'')] [],
                 Element ''div'' [(''id'', ''toolbar-sidebar'')] []],
     charts = [], downloads = [], fullscreen = []\<rparr>
   = (Completed, \<lparr>
     document = [Element ''select'' [(''id'', ''toolbar-top'')]
                   [Unparsed ''select'' toolbarHTML],
                 Element ''div'' [(''id'', ''toolbar-sidebar'')] toolbarNodes],
     charts = [], downloads = [], fullscreen = []\<rparr>)"
proof -
  have "toolbarHTML \<noteq> []" by (simp add: toolbarHTML_def)
  then show ?thesis
    by (simp add: renderToolbars_def andThen_def setInnerHTML_def hasId_def parseIn_def
        flowContainer_def toolbarNodes_parsed toolbarNodes_no_ids toolbarNodes_no_mounts)
qed

end
